theory Spec2Isabelle
  imports Main "HOL-Library.AList" "HOL-Library.Sublist" "HOL-Library.Char_ord" "HOL-Library.List_Lexorder"
begin

section \<open>Python values, exceptions and call results\<close>

text \<open>
  The values that travel through the dispatcher: parsed command-line values, handler
  results, and the class or function a command is bound to. \<open>PInt\<close> is Python's
  type \<open>int\<close>, \<open>PBool\<close> its subclass \<open>bool\<close>; \<open>PObject\<close> is an instance of any
  other class (truthy, as an object without \<open>__nonzero__\<close> and \<open>__len__\<close> is).
\<close>

datatype pyval =
    PNone
  | PBool bool
  | PInt int
  | PStr string
  | PList "pyval list"
  | PObject string
  | PClass string
  | PFunc string

fun truthy :: "pyval \<Rightarrow> bool" where
  "truthy PNone = False"
| "truthy (PBool b) = b"
| "truthy (PInt n) = (n \<noteq> 0)"
| "truthy (PStr s) = (s \<noteq> [])"
| "truthy (PList xs) = (xs \<noteq> [])"
| "truthy (PObject c) = True"
| "truthy (PClass c) = True"
| "truthy (PFunc f) = True"

text \<open>\<open>isinstance(result, int)\<close>: \<open>bool\<close> is a subclass of \<open>int\<close>.\<close>

fun isinstance_int :: "pyval \<Rightarrow> bool" where
  "isinstance_int (PInt n) = True"
| "isinstance_int (PBool b) = True"
| "isinstance_int v = False"

text \<open>
  Exceptions, with the part of Python's hierarchy the \<open>except\<close> clauses of the program
  look at: \<open>KeyboardInterrupt\<close> and \<open>SystemExit\<close> derive from \<open>BaseException\<close> only,
  every other class here derives from \<open>Exception\<close>. \<open>UserError c\<close> is an instance of
  any further subclass \<open>c\<close> of \<open>Exception\<close>.
\<close>

datatype pyexc =
    KeyboardInterrupt
  | SystemExit int
  | AssertionError
  | IndexError
  | AttributeError string
  | TypeError string
  | Exception string
  | UserError string

fun isinstance_KeyboardInterrupt :: "pyexc \<Rightarrow> bool" where
  "isinstance_KeyboardInterrupt KeyboardInterrupt = True"
| "isinstance_KeyboardInterrupt e = False"

fun isinstance_Exception :: "pyexc \<Rightarrow> bool" where
  "isinstance_Exception KeyboardInterrupt = False"
| "isinstance_Exception (SystemExit n) = False"
| "isinstance_Exception e = True"

text \<open>
  One entry of \<open>traceback.extract_tb\<close>: file name, line number, function name, text.
  \<open>frame[0]\<close> is the file name.
\<close>

type_synonym frame = "string \<times> nat \<times> string \<times> string"

text \<open>
  The result of a call: a value, or an exception together with the traceback entries
  of the frames below the caller's own (the callee's frame first). The caller's own entry
  is put in front when the caller extracts the traceback.
\<close>

datatype 'a result = Return 'a | Raise pyexc "frame list"

section \<open>The process state a run can see\<close>

text \<open>
  A stream object: a file with its \<open>encoding\<close> attribute (possibly \<open>None\<close>), an
  object without that attribute, or a codec reader or writer around another stream
  (\<open>codecs.getreader('utf-8')(s)\<close>, \<open>codecs.getwriter('utf-8')(s)\<close>).
\<close>

datatype stream =
    File nat "string option"
  | Buffer nat
  | StreamReader stream
  | StreamWriter stream

datatype banner = MACH_ERROR | ERROR_FOOTER | COMMAND_ERROR | MODULE_ERROR

datatype event =
    Usage
  | Help
  | Text string
  | Banner banner
  | ErrorHeader "string list"
  | ExceptionReport pyexc "frame list"
  | ArgparseError string
  | AddJsonHandler pyval
  | AddTerminalLogging bool pyval
  | RunProcess "string list" "(string \<times> string) list"

text \<open>
  \<open>sys.stdin\<close>, \<open>sys.stdout\<close>, \<open>sys.stderr\<close>, and the trace of what the run wrote
  or did, each entry with the stream that \<open>sys.stdout\<close> was at that moment.
\<close>

record world =
  sys_stdin :: stream
  sys_stdout :: stream
  sys_stderr :: stream
  trace :: "(stream \<times> event) list"

definition emit :: "event \<Rightarrow> world \<Rightarrow> world" where
  "emit e w = w\<lparr>trace := trace w @ [(sys_stdout w, e)]\<rparr>"

section \<open>The dispatcher: \<open>Mach._run\<close>\<close>

type_synonym namespace = "(string \<times> pyval) list"

type_synonym handler = "namespace \<Rightarrow> world \<Rightarrow> pyval result \<times> world"

definition CONSUMED_ARGUMENTS :: "string list" where
  "CONSUMED_ARGUMENTS =
     [''settings_file'', ''verbose'', ''logfile'', ''log_interval'',
      ''command'', ''cls'', ''method'', ''func'']"

text \<open>
  \<open>{k: getattr(args, k) for k in vars(args) if k not in CONSUMED_ARGUMENTS}\<close>; the
  namespace is the list of the attributes of \<open>args\<close>, each name once.
\<close>

definition stripped :: "namespace \<Rightarrow> namespace" where
  "stripped args = filter (\<lambda>(k, v). k \<notin> set CONSUMED_ARGUMENTS) args"

text \<open>
  The classes and functions that commands are bound to. A class maps an attribute name
  to the method it holds; the method gets the instance's \<open>cwd\<close> (all a \<open>BaseMixin\<close>
  instance built by \<open>cls(self.cwd, None, self.log_manager)\<close> differs in) and then
  the keyword arguments.
\<close>

record tables =
  classes :: "string \<Rightarrow> (string \<Rightarrow> (string \<Rightarrow> handler) option) option"
  funcs :: "string \<Rightarrow> handler option"

definition main_py :: string where
  "main_py = ''mach/main.py''"

text \<open>The traceback entries of \<open>_run\<close> itself, by the line that raises.\<close>

definition run_frame :: "nat \<Rightarrow> string \<Rightarrow> frame" where
  "run_frame line txt = (main_py, line, ''_run'', txt)"

definition call_frame :: frame where
  "call_frame = run_frame 253 ''result = fn(**stripped)''"

definition assert_frame :: frame where
  "assert_frame = run_frame 258 ''assert isinstance(result, int)''"

definition reraise_frame :: frame where
  "reraise_frame = run_frame 262 ''raise ki''"

definition index_frame :: frame where
  "index_frame = run_frame 274 ''initial_file = stack[0][0]''"

text \<open>
  The body of the \<open>try\<close> (lines 253 to 260). An exception leaves it with the traceback
  \<open>traceback.extract_tb\<close> will give: the entry of \<open>_run\<close> first.
\<close>

definition try_body :: "handler \<Rightarrow> namespace \<Rightarrow> world \<Rightarrow> pyval result \<times> world" where
  "try_body fn kw w =
     (case fn kw w of
        (Raise e fs, w') \<Rightarrow> (Raise e (call_frame # fs), w')
      | (Return r, w') \<Rightarrow>
          (let result = (if \<not> truthy r then PInt 0 else r)
           in if isinstance_int result then (Return result, w')
              else (Raise AssertionError [assert_frame], w')))"

definition print_error_header :: "string list \<Rightarrow> world \<Rightarrow> world" where
  "print_error_header argv w = emit (ErrorHeader argv) w"

definition print_exception :: "pyexc \<Rightarrow> frame list \<Rightarrow> world \<Rightarrow> world" where
  "print_exception e stack w = emit (ExceptionReport e stack) (emit (Banner ERROR_FOOTER) w)"

text \<open>
  The clause \<open>except Exception\<close> (lines 264 to 295), given the extracted traceback.
  \<open>stack[0]\<close> on an empty list raises \<open>IndexError\<close>, which leaves \<open>_run\<close>.
\<close>

definition classify :: "string list \<Rightarrow> pyexc \<Rightarrow> frame list \<Rightarrow> world \<Rightarrow> pyval result \<times> world" where
  "classify argv e tb w =
     (let stack = drop 1 tb
      in case stack of
           [] \<Rightarrow> (Raise IndexError [index_frame], w)
         | f0 # rest \<Rightarrow>
             (let initial_file = fst f0;
                  command_frames = filter (\<lambda>f. fst f = initial_file) stack;
                  other_frames = filter (\<lambda>f. fst f \<noteq> initial_file) stack;
                  w1 = print_error_header argv w;
                  w2 = (if length other_frames \<noteq> 0 then emit (Banner MODULE_ERROR) w1
                        else emit (Banner COMMAND_ERROR) w1);
                  w3 = print_exception e stack w2
              in (Return (PInt 1), w3)))"

text \<open>The \<open>try\<close> statement of \<open>_run\<close> with its two \<open>except\<close> clauses, in their order.\<close>

definition invoke :: "string list \<Rightarrow> handler \<Rightarrow> namespace \<Rightarrow> world \<Rightarrow> pyval result \<times> world" where
  "invoke argv fn kw w =
     (case try_body fn kw w of
        (Return r, w') \<Rightarrow> (Return r, w')
      | (Raise e tb, w') \<Rightarrow>
          if isinstance_KeyboardInterrupt e then (Raise e [reraise_frame], w')
          else if isinstance_Exception e then classify argv e tb w'
          else (Raise e tb, w'))"

text \<open>
  Lines 239 to 250: the handler of the parsed command. \<open>hasattr\<close> looks at the
  namespace; a class or function the tables do not hold cannot be called.
\<close>

definition resolve :: "tables \<Rightarrow> string \<Rightarrow> namespace \<Rightarrow> pyexc \<times> frame list + handler" where
  "resolve T cwd args =
     (case map_of args ''cls'' of
        Some c \<Rightarrow>
          (case c of
             PClass cn \<Rightarrow>
               (case classes T cn of
                  None \<Rightarrow> Inl (TypeError ''object is not callable'',
                               [run_frame 243 ''instance = cls(self.cwd, None, self.log_manager)''])
                | Some attrs \<Rightarrow>
                    (case map_of args ''method'' of
                       Some (PStr m) \<Rightarrow>
                         (case attrs m of
                            Some meth \<Rightarrow> Inr (meth cwd)
                          | None \<Rightarrow> Inl (AttributeError m,
                                [run_frame 244 ''fn = getattr(instance, getattr(args, 'method'))'']))
                     | Some other \<Rightarrow> Inl (TypeError ''getattr(): attribute name must be string'',
                                [run_frame 244 ''fn = getattr(instance, getattr(args, 'method'))''])
                     | None \<Rightarrow> Inl (AttributeError ''method'',
                                [run_frame 244 ''fn = getattr(instance, getattr(args, 'method'))''])))
           | other \<Rightarrow> Inl (TypeError ''object is not callable'',
                          [run_frame 243 ''instance = cls(self.cwd, None, self.log_manager)'']))
      | None \<Rightarrow>
          (case map_of args ''func'' of
             Some (PFunc f) \<Rightarrow>
               (case funcs T f of
                  Some fn \<Rightarrow> Inr fn
                | None \<Rightarrow> Inl (TypeError ''object is not callable'', [call_frame]))
           | Some other \<Rightarrow> Inl (TypeError ''object is not callable'', [call_frame])
           | None \<Rightarrow> Inl (Exception ''Dispatch configuration error in module.'',
                          [run_frame 250 ''raise Exception('Dispatch configuration error in module.')''])))"


section \<open>Declaring commands: the decorators of \<open>mach/base.py\<close>\<close>

text \<open>
  What a decorator is built with: the positional arguments and the keyword arguments,
  kept as the pair \<open>(args, kwargs)\<close> in \<open>self._command_args\<close>.
\<close>

type_synonym command_args = "string list \<times> (string \<times> pyval) list"

text \<open>
  A function object, with the two attributes the decorators store on it; \<open>None\<close> is
  the attribute not being there.
\<close>

record func =
  func_name :: string
  mach_command :: "command_args option"
  mach_command_args :: "command_args list option"

datatype decorator = Command command_args | CommandArgument command_args

text \<open>
  \<open>Command.__call__\<close> and \<open>CommandArgument.__call__\<close>. The second reads the list
  with \<open>getattr(func, '_mach_command_args', [])\<close>, appends to it and stores it back.
\<close>

fun decorate :: "decorator \<Rightarrow> func \<Rightarrow> func" where
  "decorate (Command a) f = f\<lparr>mach_command := Some a\<rparr>"
| "decorate (CommandArgument a) f =
     (let command_args = (case mach_command_args f of None \<Rightarrow> [] | Some l \<Rightarrow> l)
      in f\<lparr>mach_command_args := Some (command_args @ [a])\<rparr>)"

text \<open>
  Decorators written above a \<open>def\<close> in the order \<open>d1, d2, ..., dn\<close> are applied
  from the one nearest the function outwards: the function becomes
  \<open>d1(d2(...(dn(f))))\<close>.
\<close>

definition def_with :: "decorator list \<Rightarrow> func \<Rightarrow> func" where
  "def_with ds f = foldr decorate ds f"

text \<open>A value in a class's \<open>__dict__\<close>: a function, or anything else.\<close>

datatype attr_value = Function func | Other pyval

record pyclass =
  class_name :: string
  class_dict :: "(string \<times> attr_value) list"

text \<open>
  One registered command: the class, the attribute name of the method, the parser
  arguments \<open>(parser_args[0], parser_args[1])\<close> and the argument list as it is handed to
  \<open>register_method_handler\<close>.
\<close>

record descriptor =
  d_cls :: string
  d_method :: string
  d_parser_args :: command_args
  d_arguments :: "command_args list"

text \<open>
  Modelled from the spec: \<open>mach.registrar.register_method_handler\<close>, which
  \<open>mach/base.py\<close> imports and whose module is not among the sources. Section 4.1:
  registering appends a descriptor, and the descriptors are kept in registration order.
\<close>

definition register_method_handler ::
    "string \<Rightarrow> string \<Rightarrow> command_args \<Rightarrow> command_args list \<Rightarrow> descriptor list \<Rightarrow> descriptor list" where
  "register_method_handler cls method parser_args arguments reg =
     reg @ [\<lparr>d_cls = cls, d_method = method, d_parser_args = parser_args,
             d_arguments = arguments\<rparr>]"

text \<open>
  The body of the loop of \<open>CommandProvider\<close> for one attribute (lines 58 to 70), and
  the loop over \<open>sorted(cls.__dict__.keys())\<close>. \<open>arguments or []\<close> is the empty list
  for a missing attribute.
\<close>

definition provide_attr :: "pyclass \<Rightarrow> string \<Rightarrow> descriptor list \<Rightarrow> descriptor list" where
  "provide_attr cls attr reg =
     (case map_of (class_dict cls) attr of
        Some (Function value) \<Rightarrow>
          (case mach_command value of
             None \<Rightarrow> reg
           | Some parser_args \<Rightarrow>
               (let arguments = mach_command_args value
                in register_method_handler (class_name cls) attr
                     (fst parser_args, snd parser_args)
                     (case arguments of None \<Rightarrow> [] | Some l \<Rightarrow> l) reg))
      | _ \<Rightarrow> reg)"

definition CommandProvider :: "pyclass \<Rightarrow> descriptor list \<Rightarrow> descriptor list" where
  "CommandProvider cls reg =
     fold (provide_attr cls) (sort (remdups (map fst (class_dict cls)))) reg"


section \<open>The argument grammar\<close>

text \<open>
  The fragment of the standard \<open>argparse\<close> module (Python 2.7) that the program's
  grammar uses: optionals that store one value or set a flag, the help action,
  positionals that take exactly one value, and one sub-grammar per command. A command
  line, or a declaration, that needs more of \<open>argparse\<close> than this (abbreviated or
  \<open>--opt=value\<close> options, \<open>nargs\<close>, \<open>type\<close>, a log file to open) is outside the
  model: the functions below return \<open>None\<close> for it and nothing is stated about it.
\<close>

datatype action = Store | StoreTrue | HelpAction

record argument =
  option_strings :: "string list"
  dest :: string
  action :: action
  default_value :: pyval
  choices :: "string list option"
  file_type :: bool

datatype parsed = Namespace namespace | Error string | HelpExit

definition optionlike :: "string \<Rightarrow> bool" where
  "optionlike t = (case t of [] \<Rightarrow> False | c # cs \<Rightarrow> c = CHR ''-'')"

fun join :: "string \<Rightarrow> string list \<Rightarrow> string" where
  "join sep [] = []"
| "join sep [x] = x"
| "join sep (x # y # ys) = x @ sep @ join sep (y # ys)"

fun replace_char :: "char \<Rightarrow> char \<Rightarrow> string \<Rightarrow> string" where
  "replace_char a b [] = []"
| "replace_char a b (c # cs) = (if c = a then b else c) # replace_char a b cs"

text \<open>\<open>repr\<close> of a string without quotes or escapes in it.\<close>

definition py_repr :: "string \<Rightarrow> string" where
  "py_repr s = [CHR 0x27] @ s @ [CHR 0x27]"

text \<open>
  The destination \<open>argparse\<close> derives for an optional: the first long option string,
  else the first option string, without its leading dashes and with \<open>-\<close> turned into
  \<open>_\<close>.
\<close>

definition is_long :: "string \<Rightarrow> bool" where
  "is_long t = (case t of c # d # cs \<Rightarrow> c = CHR ''-'' \<and> d = CHR ''-'' | _ \<Rightarrow> False)"

definition derived_dest :: "string list \<Rightarrow> string" where
  "derived_dest os =
     (let chosen = (case filter is_long os of l # ls \<Rightarrow> l | [] \<Rightarrow> hd os)
      in replace_char (CHR ''-'') (CHR ''_'') (dropWhile (\<lambda>c. c = CHR ''-'') chosen))"

fun choices_of :: "pyval \<Rightarrow> string list option" where
  "choices_of (PList []) = Some []"
| "choices_of (PList (PStr s # vs)) = map_option (\<lambda>r. s # r) (choices_of (PList vs))"
| "choices_of v = None"

definition known_kwargs :: "string list" where
  "known_kwargs = [''help'', ''action'', ''default'', ''choices'', ''dest'']"

definition action_of :: "(string \<times> pyval) list \<Rightarrow> action option" where
  "action_of kw =
     (case map_of kw ''action'' of
        None \<Rightarrow> Some Store
      | Some (PStr a) \<Rightarrow>
          (if a = ''store'' then Some Store
           else if a = ''store_true'' then Some StoreTrue
           else if a = ''help'' then Some HelpAction else None)
      | Some other \<Rightarrow> None)"

definition choices_kw :: "(string \<times> pyval) list \<Rightarrow> string list option option" where
  "choices_kw kw =
     (case map_of kw ''choices'' of
        None \<Rightarrow> Some None
      | Some v \<Rightarrow> map_option Some (choices_of v))"

definition dest_kw :: "(string \<times> pyval) list \<Rightarrow> string list \<Rightarrow> string option" where
  "dest_kw kw names =
     (case map_of kw ''dest'' of
        None \<Rightarrow> Some (derived_dest names)
      | Some (PStr d) \<Rightarrow> Some d
      | Some other \<Rightarrow> None)"

text \<open>
  \<open>add_argument(*args, **kwargs)\<close> for the declarations of the fragment: one name
  without a dash is a positional, names that all start with a dash are an optional.
\<close>

definition add_argument :: "command_args \<Rightarrow> argument option" where
  "add_argument ca =
     (let names = fst ca; kw = snd ca
      in if \<not> set (map fst kw) \<subseteq> set known_kwargs \<or> \<not> distinct (map fst kw) \<or> names = []
         then None
         else
           (case (action_of kw, choices_kw kw) of
              (Some act, Some ch) \<Rightarrow>
                (let dflt = (case map_of kw ''default'' of
                               Some v \<Rightarrow> v
                             | None \<Rightarrow> (if act = StoreTrue then PBool False else PNone))
                 in if length names = 1 \<and> \<not> optionlike (hd names)
                    then (if hd names = [] \<or> map_of kw ''dest'' \<noteq> None \<or> act \<noteq> Store
                          then None
                          else Some \<lparr>option_strings = [], dest = hd names, action = act,
                                     default_value = dflt, choices = ch, file_type = False\<rparr>)
                    else if \<not> list_all optionlike names then None
                    else (case dest_kw kw names of
                            None \<Rightarrow> None
                          | Some d \<Rightarrow>
                              Some \<lparr>option_strings = names, dest = d, action = act,
                                    default_value = dflt, choices = ch, file_type = False\<rparr>))
            | _ \<Rightarrow> None))"

text \<open>The name of an argument in an error message: its option strings, else its destination.\<close>

definition action_name :: "argument \<Rightarrow> string" where
  "action_name a =
     (if option_strings a \<noteq> [] then join ''/'' (option_strings a) else dest a)"

definition invalid_choice :: "string \<Rightarrow> string \<Rightarrow> string list \<Rightarrow> string" where
  "invalid_choice name v cs =
     ''argument '' @ name @ '': invalid choice: '' @ py_repr v
       @ '' (choose from '' @ join '', '' (map py_repr cs) @ '')''"

definition check_value :: "argument \<Rightarrow> string \<Rightarrow> string option" where
  "check_value a v =
     (case choices a of
        None \<Rightarrow> None
      | Some cs \<Rightarrow> if v \<in> set cs then None else Some (invalid_choice (action_name a) v cs))"

definition expected_one :: "argument \<Rightarrow> string" where
  "expected_one a = ''argument '' @ action_name a @ '': expected one argument''"

definition lookup_option :: "argument list \<Rightarrow> string \<Rightarrow> argument option" where
  "lookup_option opts t = find (\<lambda>a. t \<in> set (option_strings a)) opts"

definition setdefault :: "namespace \<Rightarrow> string \<Rightarrow> pyval \<Rightarrow> namespace" where
  "setdefault ns k v = (if k \<in> set (map fst ns) then ns else ns @ [(k, v)])"

text \<open>
  One parser at work on its tokens, left to right: \<open>opts\<close> its optionals, \<open>pos\<close> the
  positionals still to be filled, \<open>extras\<close> the tokens nothing took. At the end a
  positional left unfilled is \<open>too few arguments\<close>, and extras are
  \<open>unrecognized arguments\<close>.
\<close>

fun parse_flat ::
    "argument list \<Rightarrow> argument list \<Rightarrow> string list \<Rightarrow> namespace \<Rightarrow> string list \<Rightarrow> parsed option" where
  "parse_flat opts pos extras ns [] =
     (if pos \<noteq> [] then Some (Error ''too few arguments'')
      else if extras \<noteq> [] then Some (Error (''unrecognized arguments: '' @ join '' '' extras))
      else Some (Namespace ns))"
| "parse_flat opts pos extras ns (t # ts) =
     (if optionlike t then
        (case lookup_option opts t of
           None \<Rightarrow> None
         | Some a \<Rightarrow>
             (case action a of
                HelpAction \<Rightarrow> Some HelpExit
              | StoreTrue \<Rightarrow> parse_flat opts pos extras (AList.update (dest a) (PBool True) ns) ts
              | Store \<Rightarrow>
                  (if file_type a then None
                   else (case ts of
                           [] \<Rightarrow> Some (Error (expected_one a))
                         | v # ts' \<Rightarrow>
                             (if optionlike v then
                                (if lookup_option opts v \<noteq> None then Some (Error (expected_one a))
                                 else None)
                              else (case check_value a v of
                                      Some msg \<Rightarrow> Some (Error msg)
                                    | None \<Rightarrow>
                                        parse_flat opts pos extras
                                          (AList.update (dest a) (PStr v) ns) ts'))))))
      else
        (case pos of
           [] \<Rightarrow> parse_flat opts pos (extras @ [t]) ns ts
         | p # pos' \<Rightarrow>
             (case check_value p t of
                Some msg \<Rightarrow> Some (Error msg)
              | None \<Rightarrow> parse_flat opts pos' extras (AList.update (dest p) (PStr t) ns) ts)))"


text \<open>
  A sub-grammar: the arguments of one command, and the defaults \<open>set_defaults\<close> gave
  it. The top grammar: the global arguments and the sub-grammars in the order they
  were added; a name added twice is found at its last addition.
\<close>

record subparser =
  sp_name :: string
  sp_arguments :: "argument list"
  sp_defaults :: namespace

record parser =
  p_arguments :: "argument list"
  p_defaults :: namespace
  p_subparsers :: "subparser list"

definition help_argument :: argument where
  "help_argument =
     \<lparr>option_strings = [''-h'', ''--help''], dest = ''help'', action = HelpAction,
      default_value = PNone, choices = None, file_type = False\<rparr>"

fun add_arguments :: "command_args list \<Rightarrow> argument list option" where
  "add_arguments [] = Some []"
| "add_arguments (ca # cas) =
     (case add_argument ca of
        None \<Rightarrow> None
      | Some a \<Rightarrow> map_option (\<lambda>r. a # r) (add_arguments cas))"

text \<open>
  Modelled from the spec: \<open>mach.registrar.populate_argument_parser\<close>, which
  \<open>mach/main.py\<close> imports and whose module is not among the sources. Sections 4.3 and
  4.4: one sub-grammar per registered command, in registration order, named by the
  first parser argument; the stored argument list is read in reverse, so that the
  arguments come out in declaration order; the command is bound to its class and
  method. Every sub-grammar has the help option \<open>add_parser\<close> gives it.
\<close>

definition resolved_arguments :: "descriptor \<Rightarrow> command_args list" where
  "resolved_arguments d = rev (d_arguments d)"

fun populate_argument_parser :: "descriptor list \<Rightarrow> subparser list option" where
  "populate_argument_parser [] = Some []"
| "populate_argument_parser (d # ds) =
     (case (fst (d_parser_args d), add_arguments (resolved_arguments d)) of
        ([name], Some args) \<Rightarrow>
          map_option
            (\<lambda>r. \<lparr>sp_name = name, sp_arguments = help_argument # args,
                   sp_defaults = [(''cls'', PClass (d_cls d)), (''method'', PStr (d_method d))]\<rparr> # r)
            (populate_argument_parser ds)
      | _ \<Rightarrow> None)"

text \<open>\<open>Mach.get_argument_parser\<close> (lines 347 to 377) over the registered commands.\<close>

definition global_arguments :: "argument list" where
  "global_arguments =
     [help_argument,
      \<lparr>option_strings = [''-v'', ''--verbose''], dest = ''verbose'', action = StoreTrue,
       default_value = PBool False, choices = None, file_type = False\<rparr>,
      \<lparr>option_strings = [''-l'', ''--log-file''], dest = ''logfile'', action = Store,
       default_value = PNone, choices = None, file_type = True\<rparr>,
      \<lparr>option_strings = [''--log-interval''], dest = ''log_interval'', action = StoreTrue,
       default_value = PBool False, choices = None, file_type = False\<rparr>]"

definition get_argument_parser :: "descriptor list \<Rightarrow> parser option" where
  "get_argument_parser reg =
     map_option
       (\<lambda>sps. \<lparr>p_arguments = global_arguments,
                p_defaults = [(''command'', PStr ''help'')],
                p_subparsers = sps\<rparr>)
       (populate_argument_parser reg)"

text \<open>
  The namespace before any token is read: the default of every argument that has a
  destination (the help action has none), then the parser's own defaults, each only
  where the namespace has no such attribute yet.
\<close>

definition with_defaults :: "argument list \<Rightarrow> namespace \<Rightarrow> namespace \<Rightarrow> namespace" where
  "with_defaults args dflts ns =
     fold (\<lambda>(k, v) n. setdefault n k v) dflts
       (fold (\<lambda>a n. setdefault n (dest a) (default_value a))
          (filter (\<lambda>a. action a \<noteq> HelpAction) args) ns)"

definition is_optional :: "argument \<Rightarrow> bool" where
  "is_optional a = (option_strings a \<noteq> [])"

definition parse_sub :: "subparser \<Rightarrow> namespace \<Rightarrow> string list \<Rightarrow> parsed option" where
  "parse_sub sp ns ts =
     parse_flat (filter is_optional (sp_arguments sp))
       (filter (\<lambda>a. \<not> is_optional a) (sp_arguments sp)) []
       (with_defaults (sp_arguments sp) (sp_defaults sp) ns) ts"

text \<open>
  A token after the command that the top grammar would read as an abbreviation of one
  of its own options (and reject as ambiguous when there are two) is outside the
  fragment.
\<close>

definition abbreviates :: "argument list \<Rightarrow> string \<Rightarrow> bool" where
  "abbreviates opts t =
     (optionlike t \<and> lookup_option opts t = None
      \<and> (\<exists>a \<in> set opts. \<exists>s \<in> set (option_strings a). prefix t s))"

text \<open>
  The top grammar: global options up to the first token that is not one; that token
  is the command, checked against the names of the sub-grammars, and the sub-grammar
  of that name reads all the tokens after it.
\<close>

fun parse_top :: "parser \<Rightarrow> namespace \<Rightarrow> string list \<Rightarrow> parsed option" where
  "parse_top P ns [] = Some (Error ''too few arguments'')"
| "parse_top P ns (t # ts) =
     (if optionlike t then
        (case lookup_option (p_arguments P) t of
           None \<Rightarrow> None
         | Some a \<Rightarrow>
             (case action a of
                HelpAction \<Rightarrow> Some HelpExit
              | StoreTrue \<Rightarrow> parse_top P (AList.update (dest a) (PBool True) ns) ts
              | Store \<Rightarrow> None))
      else if list_ex (abbreviates (p_arguments P)) ts then None
      else
        (case find (\<lambda>sp. sp_name sp = t) (rev (p_subparsers P)) of
           None \<Rightarrow> Some (Error (invalid_choice ''command'' t (map sp_name (p_subparsers P))))
         | Some sp \<Rightarrow> parse_sub sp (AList.update ''command'' (PStr t) ns) ts))"

definition parse_tokens :: "parser \<Rightarrow> string list \<Rightarrow> parsed option" where
  "parse_tokens P argv =
     parse_top P
       (with_defaults
          (\<lparr>option_strings = [], dest = ''command'', action = Store, default_value = PStr ''help'',
            choices = None, file_type = False\<rparr> # p_arguments P)
          (p_defaults P) [])
       argv"

section \<open>Parse errors, dispatch and the outer boundary\<close>

text \<open>
  \<open>argparse.ArgumentParser.error\<close>: usage and the message on \<open>sys.stderr\<close>, then
  \<open>sys.exit(2)\<close>.
\<close>

definition argparse_error :: "string \<Rightarrow> world \<Rightarrow> 'a result \<times> world" where
  "argparse_error message w =
     (Raise (SystemExit 2) [(''argparse.py'', 0, ''exit'', ''_sys.exit(status)'')],
      emit (ArgparseError message) w)"

text \<open>
  \<open>ArgumentParser.error\<close> of \<open>mach/main.py\<close> (lines 72 to 80). Neither branch
  returns: the standard error exits, so the \<open>assert False\<close> after it is not reached.
\<close>

definition ArgumentParser_error :: "string \<Rightarrow> world \<Rightarrow> 'a result \<times> world" where
  "ArgumentParser_error message w =
     (if \<not> prefix ''argument command: invalid choice'' message
      then argparse_error message w
      else (Raise (SystemExit 1) [(main_py, 80, ''error'', ''sys.exit(1)'')],
            emit Help
              (emit (Text ''Invalid command specified. The list of commands is below.'') w)))"

text \<open>
  \<open>parser.parse_args(argv)\<close>: the namespace, or the exit of the help action, or the
  error hook called with the message of the error. \<open>None\<close> where the grammar or
  the command line is outside the modelled fragment of \<open>argparse\<close>.
\<close>

definition parse_args :: "parser \<Rightarrow> string list \<Rightarrow> world \<Rightarrow> (namespace result \<times> world) option" where
  "parse_args P argv w =
     (case parse_tokens P argv of
        None \<Rightarrow> None
      | Some HelpExit \<Rightarrow>
          Some (Raise (SystemExit 0) [(''argparse.py'', 0, ''exit'', ''_sys.exit(status)'')],
                emit Help w)
      | Some (Error message) \<Rightarrow> Some (ArgumentParser_error message w)
      | Some (Namespace args) \<Rightarrow> Some (Return args, w))"

text \<open>Lines 222 to 295 of \<open>_run\<close>: what happens once the arguments are parsed.\<close>

definition dispatch ::
    "tables \<Rightarrow> string \<Rightarrow> string list \<Rightarrow> namespace \<Rightarrow> world \<Rightarrow> pyval result \<times> world" where
  "dispatch T cwd argv args w =
     (case map_of args ''logfile'' of
        None \<Rightarrow> (Raise (AttributeError ''logfile'') [run_frame 223 ''if args.logfile:''], w)
      | Some logfile \<Rightarrow>
          (let w1 = (if truthy logfile then emit (AddJsonHandler logfile) w else w)
           in case map_of args ''verbose'' of
                None \<Rightarrow> (Raise (AttributeError ''verbose'') [run_frame 228 ''if args.verbose:''], w1)
              | Some verbose \<Rightarrow>
                  (case map_of args ''log_interval'' of
                     None \<Rightarrow> (Raise (AttributeError ''log_interval'')
                                [run_frame 233 ''self.log_manager.add_terminal_logging(level=log_level,''],
                               w1)
                   | Some log_interval \<Rightarrow>
                       (let w2 = emit (AddTerminalLogging (truthy verbose) log_interval) w1
                        in case resolve T cwd args of
                             Inl (e, fs) \<Rightarrow> (Raise e fs, w2)
                           | Inr fn \<Rightarrow> invoke argv fn (stripped args) w2))))"

text \<open>
  \<open>Mach._run\<close>. The result is \<open>None\<close> where the grammar or the command line is
  outside the modelled fragment of \<open>argparse\<close>.
\<close>

definition Mach__run ::
    "tables \<Rightarrow> descriptor list \<Rightarrow> string \<Rightarrow> string list \<Rightarrow> world \<Rightarrow> (pyval result \<times> world) option" where
  "Mach__run T reg cwd argv w =
     (case get_argument_parser reg of
        None \<Rightarrow> None
      | Some parser \<Rightarrow>
          if length argv = 0 then Some (Return (PInt 0), emit Usage w)
          else if hd argv = ''help'' then Some (Return (PInt 0), emit Help w)
          else
            (case parse_args parser argv w of
               None \<Rightarrow> None
             | Some (Raise e fs, w') \<Rightarrow>
                 Some (Raise e (run_frame 220 ''args = parser.parse_args(argv)'' # fs), w')
             | Some (Return args, w') \<Rightarrow> Some (dispatch T cwd argv args w')))"

text \<open>
  The \<open>encoding\<close> attribute of a stream. A codec reader or writer hands the lookup of
  an attribute it does not have to the stream it wraps.
\<close>

fun encoding_attr :: "stream \<Rightarrow> pyexc + string option" where
  "encoding_attr (File n enc) = Inr enc"
| "encoding_attr (Buffer n) = Inl (AttributeError ''encoding'')"
| "encoding_attr (StreamReader s) = encoding_attr s"
| "encoding_attr (StreamWriter s) = encoding_attr s"

definition outer_frame :: "nat \<Rightarrow> string \<Rightarrow> frame" where
  "outer_frame line txt = (main_py, line, ''run'', txt)"

text \<open>
  The body of the \<open>try\<close> of \<open>Mach.run\<close> (lines 170 to 179); \<open>inner\<close> is
  \<open>self._run(argv)\<close>, which runs the handler and so may do anything to the state.
\<close>

definition run_try ::
    "(world \<Rightarrow> pyval result \<times> world) \<Rightarrow> stream \<Rightarrow> stream \<Rightarrow> stream \<Rightarrow> world \<Rightarrow> pyval result \<times> world" where
  "run_try inner stdin stdout stderr w =
     (case encoding_attr stdin of
        Inl e \<Rightarrow> (Raise e [outer_frame 170 ''if stdin.encoding is None:''], w)
      | Inr enc_in \<Rightarrow>
          (let w1 = (if enc_in = None then w\<lparr>sys_stdin := StreamReader stdin\<rparr> else w)
           in case encoding_attr stdout of
                Inl e \<Rightarrow> (Raise e [outer_frame 173 ''if stdout.encoding is None:''], w1)
              | Inr enc_out \<Rightarrow>
                  (let w2 = (if enc_out = None then w1\<lparr>sys_stdout := StreamWriter stdout\<rparr> else w1)
                   in case encoding_attr stderr of
                        Inl e \<Rightarrow> (Raise e [outer_frame 176 ''if stderr.encoding is None:''], w2)
                      | Inr enc_err \<Rightarrow>
                          (let w3 = (if enc_err = None
                                     then w2\<lparr>sys_stderr := StreamWriter stderr\<rparr> else w2)
                           in case inner w3 of
                                (Return v, w') \<Rightarrow> (Return v, w')
                              | (Raise e fs, w') \<Rightarrow>
                                  (Raise e (outer_frame 179 ''return self._run(argv)'' # fs), w')))))"

text \<open>\<open>Mach.run\<close> (lines 145 to 203): the \<open>try\<close>, its two \<open>except\<close> clauses, and the \<open>finally\<close>.\<close>

definition Mach_run ::
    "(world \<Rightarrow> pyval result \<times> world) \<Rightarrow> string list \<Rightarrow> stream option \<Rightarrow> stream option \<Rightarrow> stream option
       \<Rightarrow> world \<Rightarrow> pyval result \<times> world" where
  "Mach_run inner argv stdin stdout stderr w =
     (let stdin' = (case stdin of None \<Rightarrow> sys_stdin w | Some s \<Rightarrow> s);
          stdout' = (case stdout of None \<Rightarrow> sys_stdout w | Some s \<Rightarrow> s);
          stderr' = (case stderr of None \<Rightarrow> sys_stderr w | Some s \<Rightarrow> s);
          orig_stdin = sys_stdin w;
          orig_stdout = sys_stdout w;
          orig_stderr = sys_stderr w;
          w0 = w\<lparr>sys_stdin := stdin', sys_stdout := stdout', sys_stderr := stderr'\<rparr>;
          (r, w1) =
            (case run_try inner stdin' stdout' stderr' w0 of
               (Return v, w') \<Rightarrow> (Return v, w')
             | (Raise e tb, w') \<Rightarrow>
                 if isinstance_KeyboardInterrupt e
                 then (Return (PInt 1),
                       emit (Text ''mach interrupted by signal or user action. Stopping.'') w')
                 else if isinstance_Exception e
                 then (Return (PInt 1),
                       print_exception e tb (emit (Banner MACH_ERROR) (print_error_header argv w')))
                 else (Raise e tb, w'))
      in (r, w1\<lparr>sys_stdin := orig_stdin, sys_stdout := orig_stdout, sys_stderr := orig_stderr\<rparr>))"


section \<open>The handler base: \<open>mach/base.py\<close>\<close>

type_synonym env = "(string \<times> string) list"

definition backslash :: char where
  "backslash = CHR 0x5C"

definition dquote :: char where
  "dquote = CHR 0x22"

definition tab :: char where
  "tab = CHR 0x09"

text \<open>\<open>str.lower\<close> on ASCII letters.\<close>

definition lower_char :: "char \<Rightarrow> char" where
  "lower_char c = (if CHR ''A'' \<le> c \<and> c \<le> CHR ''Z'' then char_of (of_char c + (32::nat)) else c)"

definition lower :: "string \<Rightarrow> string" where
  "lower s = map lower_char s"

text \<open>The shell detection the module does when it is imported (lines 21 to 36).\<close>

record platform =
  current_shell :: string
  in_msys :: bool

definition detect_shell :: "env \<Rightarrow> pyexc + string" where
  "detect_shell environ =
     (case map_of environ ''SHELL'' of
        Some sh \<Rightarrow> Inr sh
      | None \<Rightarrow>
          (case map_of environ ''MOZILLABUILD'' of
             Some m \<Rightarrow> Inr (m @ ''/msys/bin/sh.exe'')
           | None \<Rightarrow>
               (case map_of environ ''COMSPEC'' of
                  Some c \<Rightarrow> Inr c
                | None \<Rightarrow> Inl (Exception ''Could not detect environment shell!''))))"

definition detect_platform :: "env \<Rightarrow> pyexc + platform" where
  "detect_platform environ =
     (case detect_shell environ of
        Inl e \<Rightarrow> Inl e
      | Inr sh \<Rightarrow>
          if map_of environ ''MSYSTEM'' = Some ''MINGW32''
          then Inr \<lparr>current_shell = (if \<not> suffix ''.exe'' (lower sh) then sh @ ''.exe'' else sh),
                    in_msys = True\<rparr>
          else Inr \<lparr>current_shell = sh, in_msys = False\<rparr>)"

text \<open>
  \<open>subprocess.list2cmdline\<close> of the standard library: an argument with a space or a
  tab in it, or an empty one, is put in double quotes; a double quote is escaped by a
  backslash, and the backslashes before a double quote (and before the closing quote)
  are doubled. \<open>n\<close> counts the backslashes held back in \<open>bs_buf\<close>.
\<close>

fun quote_chars :: "bool \<Rightarrow> nat \<Rightarrow> string \<Rightarrow> string" where
  "quote_chars needquote n [] =
     replicate n backslash @ (if needquote then replicate n backslash @ [dquote] else [])"
| "quote_chars needquote n (c # cs) =
     (if c = backslash then quote_chars needquote (Suc n) cs
      else if c = dquote
      then replicate (2 * n) backslash @ [backslash, dquote] @ quote_chars needquote 0 cs
      else replicate n backslash @ [c] @ quote_chars needquote 0 cs)"

definition quote_arg :: "string \<Rightarrow> string" where
  "quote_arg arg =
     (let needquote = (CHR '' '' \<in> set arg \<or> tab \<in> set arg \<or> arg = [])
      in (if needquote then [dquote] else []) @ quote_chars needquote 0 arg)"

definition list2cmdline :: "string list \<Rightarrow> string" where
  "list2cmdline seq = join '' '' (map quote_arg seq)"

text \<open>\<open>os.path.join\<close> of \<open>posixpath\<close>.\<close>

definition join_step :: "string \<Rightarrow> string \<Rightarrow> string" where
  "join_step path b =
     (if prefix ''/'' b then b
      else if path = [] \<or> suffix ''/'' path then path @ b
      else path @ ''/'' @ b)"

definition os_path_join :: "string \<Rightarrow> string list \<Rightarrow> string" where
  "os_path_join a p = foldl join_step a p"

definition base_py :: string where
  "base_py = ''mach/base.py''"

text \<open>\<open>BaseMixin._normalize_command\<close> (lines 199 to 223).\<close>

definition BaseMixin__normalize_command :: "platform \<Rightarrow> string list \<Rightarrow> bool \<Rightarrow> pyexc + string list" where
  "BaseMixin__normalize_command plat args require_unix_environment =
     (if \<not> (length args \<noteq> 0) then Inl AssertionError
      else if \<not> require_unix_environment \<or> \<not> in_msys plat then Inr args
      else
        (let prog = replace_char backslash (CHR ''/'') (hd args);
             cline = list2cmdline ([prog] @ tl args)
         in Inr [current_shell plat, ''-c'', cline]))"

text \<open>
  \<open>BaseMixin._run_command\<close> (lines 136 to 197). The external program is a
  collaborator: \<open>process args env\<close> is the exit status \<open>p.wait()\<close> gives for the
  argument vector and environment it is started with. Logging and the line callback
  leave the result alone and are not modelled.
\<close>

definition use_env :: "env \<Rightarrow> env option \<Rightarrow> env option \<Rightarrow> env" where
  "use_env environ append_env explicit_env =
     (case explicit_env of
        Some (x # xs) \<Rightarrow> x # xs
      | _ \<Rightarrow>
          (case append_env of
             Some (y # ys) \<Rightarrow> AList.merge environ (y # ys)
           | _ \<Rightarrow> environ))"

definition BaseMixin__run_command ::
    "platform \<Rightarrow> env \<Rightarrow> (string list \<Rightarrow> env \<Rightarrow> int) \<Rightarrow> string list \<Rightarrow> env option \<Rightarrow> env option
       \<Rightarrow> bool \<Rightarrow> bool \<Rightarrow> world \<Rightarrow> pyval result \<times> world" where
  "BaseMixin__run_command plat environ process args append_env explicit_env
       require_unix_environment ignore_errors w =
     (case BaseMixin__normalize_command plat args require_unix_environment of
        Inl e \<Rightarrow>
          (Raise e [(base_py, 158, ''_run_command'',
                     ''args = self._normalize_command(args, require_unix_environment)''),
                    (base_py, 208, ''_normalize_command'',
                     ''assert isinstance(args, list) and len(args)'')], w)
      | Inr args' \<Rightarrow>
          (let env' = use_env environ append_env explicit_env;
               w' = emit (RunProcess args' env') w;
               status = process args' env'
           in if status \<noteq> 0 \<and> \<not> ignore_errors
              then (Raise (Exception (''Process executed with non-0 exit code: '' @ join '', '' args'))
                      [(base_py, 195, ''_run_command'',
                        ''raise Exception('Process executed with non-0 exit code: %s' % args)'')], w')
              else (Return (PInt status), w')))"


section \<open>The commands of \<open>b2g/mach/commands\<close>\<close>

text \<open>
  What the three handlers need from the process they run in: the detected platform,
  \<open>os.environ\<close> and the external programs.
\<close>

record host =
  plat :: platform
  environ :: env
  process :: "string list \<Rightarrow> env \<Rightarrow> int"

fun strings_of :: "pyval list \<Rightarrow> string list option" where
  "strings_of [] = Some []"
| "strings_of (PStr s # vs) = map_option (\<lambda>r. s # r) (strings_of vs)"
| "strings_of (v # vs) = None"

text \<open>
  The three class-based handlers call \<open>_run_command\<close> alike:
  \<open>self._run_command(args, log_name=__name__, require_unix_environment=True,
  ignore_errors=True)\<close>. An element of \<open>args\<close> that is not a string cannot be
  joined or quoted and raises \<open>TypeError\<close>.
\<close>

definition run_script :: "host \<Rightarrow> string \<Rightarrow> nat \<Rightarrow> string \<Rightarrow> pyval list \<Rightarrow> world \<Rightarrow> pyval result \<times> world" where
  "run_script h file line name args w =
     (case strings_of args of
        None \<Rightarrow> (Raise (TypeError ''expected string'')
                   [(file, line, name, ''return self._run_command(args, log_name=__name__,''),
                    (base_py, 158, ''_run_command'',
                     ''args = self._normalize_command(args, require_unix_environment)'')], w)
      | Some strs \<Rightarrow>
          (case BaseMixin__run_command (plat h) (environ h) (process h) strs None None True True w of
             (Raise e fs, w') \<Rightarrow>
               (Raise e ((file, line, name, ''return self._run_command(args, log_name=__name__,'') # fs), w')
           | (Return v, w') \<Rightarrow> (Return v, w')))"

text \<open>The list \<open>args\<close> that \<open>Flash.flash\<close> builds (lines 23 to 28 of \<open>flash.py\<close>).\<close>

definition flash_args :: "string \<Rightarrow> pyval \<Rightarrow> pyval \<Rightarrow> pyval list" where
  "flash_args cwd project serial_number =
     [PStr (os_path_join cwd [''flash.sh''])]
       @ (if serial_number \<noteq> PNone then [serial_number] else [])
       @ [project]"

text \<open>
  \<open>Flash.flash(self, project, serial_number=None)\<close> called with keyword arguments:
  a keyword the signature does not have, or no \<open>project\<close>, is a \<open>TypeError\<close> of the
  call itself, raised before any frame of the handler exists.
\<close>

definition Flash_flash :: "host \<Rightarrow> string \<Rightarrow> handler" where
  "Flash_flash h cwd kw w =
     (if \<not> list_all (\<lambda>k. k = ''project'' \<or> k = ''serial_number'') (map fst kw)
      then (Raise (TypeError ''flash() got an unexpected keyword argument'') [], w)
      else
        (case map_of kw ''project'' of
           None \<Rightarrow> (Raise (TypeError ''flash() takes at least 2 arguments'') [], w)
         | Some project \<Rightarrow>
             (let serial_number = (case map_of kw ''serial_number'' of None \<Rightarrow> PNone | Some v \<Rightarrow> v)
              in run_script h ''b2g/mach/commands/flash.py'' 30 ''flash''
                   (flash_args cwd project serial_number) w)))"

definition Build_build :: "host \<Rightarrow> string \<Rightarrow> handler" where
  "Build_build h cwd kw w =
     (if kw \<noteq> [] then (Raise (TypeError ''build() got an unexpected keyword argument'') [], w)
      else run_script h ''b2g/mach/commands/build.py'' 21 ''build''
             [PStr (os_path_join cwd [''build.sh''])] w)"

definition Emulator_run_emulator :: "host \<Rightarrow> string \<Rightarrow> handler" where
  "Emulator_run_emulator h cwd kw w =
     (if kw \<noteq> [] then (Raise (TypeError ''run_emulator() got an unexpected keyword argument'') [], w)
      else run_script h ''b2g/mach/commands/emulator.py'' 21 ''run_emulator''
             [PStr (os_path_join cwd [''run-emulator.sh''])] w)"

definition plain_func :: "string \<Rightarrow> func" where
  "plain_func n = \<lparr>func_name = n, mach_command = None, mach_command_args = None\<rparr>"

text \<open>The three classes as their modules declare them, decorators in source order.\<close>

definition Flash_class :: pyclass where
  "Flash_class =
     \<lparr>class_name = ''Flash'',
      class_dict =
        [(''__module__'', Other (PStr ''mach.commands.flash'')),
         (''flash'', Function
            (def_with
               [Command ([''flash''], [(''help'', PStr ''Flash a device with a B2G image.'')]),
                CommandArgument ([''--serial-number'', ''-s''],
                                 [(''help'', PStr ''Serial number to pass to ADB.'')]),
                CommandArgument ([''project''],
                                 [(''choices'', PList [PStr ''gecko'', PStr ''gaia'', PStr ''time'']),
                                  (''help'', PStr ''What to flash on the device.'')])]
               (plain_func ''flash''))),
         (''__doc__'', Other PNone)]\<rparr>"

definition Emulator_class :: pyclass where
  "Emulator_class =
     \<lparr>class_name = ''Emulator'',
      class_dict =
        [(''__module__'', Other (PStr ''mach.commands.emulator'')),
         (''run_emulator'', Function
            (def_with [Command ([''run-emulator''], [(''help'', PStr ''Run a B2G emulator.'')])]
               (plain_func ''run_emulator''))),
         (''__doc__'', Other PNone)]\<rparr>"

definition Build_class :: pyclass where
  "Build_class =
     \<lparr>class_name = ''Build'',
      class_dict =
        [(''__module__'', Other (PStr ''mach.commands.build'')),
         (''build'', Function
            (def_with [Command ([''build''], [(''help'', PStr ''Build B2G.'')])]
               (plain_func ''build''))),
         (''__doc__'', Other PNone)]\<rparr>"

definition b2g_tables :: "host \<Rightarrow> tables" where
  "b2g_tables h =
     \<lparr>classes =
        (\<lambda>c. if c = ''Flash'' then Some (\<lambda>m. if m = ''flash'' then Some (Flash_flash h) else None)
              else if c = ''Build'' then Some (\<lambda>m. if m = ''build'' then Some (Build_build h) else None)
              else if c = ''Emulator''
              then Some (\<lambda>m. if m = ''run_emulator'' then Some (Emulator_run_emulator h) else None)
              else None),
      funcs = (\<lambda>f. None)\<rparr>"

text \<open>
  The registry after the three modules are loaded, in the order of their file names
  (\<open>build.py\<close>, \<open>emulator.py\<close>, \<open>flash.py\<close>).
\<close>

definition b2g_registry :: "descriptor list" where
  "b2g_registry = fold CommandProvider [Build_class, Emulator_class, Flash_class] []"

section \<open>Loading the command modules: \<open>Mach.__init__\<close>\<close>

text \<open>
  The state of the process that construction reads and writes: the guard
  \<open>MODULES_SCANNED\<close>, the registry of the registrar, \<open>sys.modules\<close>, and the
  calls of \<open>imp.load_source\<close> made so far (module name and path).
\<close>

record process_state =
  MODULES_SCANNED :: bool
  registry :: "descriptor list"
  sys_modules :: "string list"
  loads :: "(string \<times> string) list"

text \<open>
  What construction sees of the outside: \<open>sys.path\<close>, the directory tests and
  listings, and for the file at a path what running it does: the command-provider
  classes it defines, in order, and the exception it ends with, if any.
\<close>

record file_system =
  sys_path :: "string list"
  isdir :: "string \<Rightarrow> bool"
  listdir :: "string \<Rightarrow> string list"
  source :: "string \<Rightarrow> pyclass list \<times> pyexc option"

definition load_source :: "file_system \<Rightarrow> string \<Rightarrow> string \<Rightarrow> process_state \<Rightarrow> unit result \<times> process_state" where
  "load_source fs module_name full_path st =
     (let st1 = st\<lparr>loads := loads st @ [(module_name, full_path)],
                    registry := fold CommandProvider (fst (source fs full_path)) (registry st)\<rparr>
      in case snd (source fs full_path) of
           Some e \<Rightarrow> (Raise e [(full_path, 0, ''<module>'', [])], st1)
         | None \<Rightarrow>
             (Return (),
              st1\<lparr>sys_modules := (if module_name \<in> set (sys_modules st1) then sys_modules st1
                                     else sys_modules st1 @ [module_name])\<rparr>))"

text \<open>The inner loop of \<open>_load_modules\<close> over the sorted listing of one directory.\<close>

fun load_files :: "file_system \<Rightarrow> string \<Rightarrow> string list \<Rightarrow> process_state \<Rightarrow> unit result \<times> process_state" where
  "load_files fs commands_path [] st = (Return (), st)"
| "load_files fs commands_path (f # files) st =
     (if \<not> suffix ''.py'' f \<or> f = ''__init__.py'' then load_files fs commands_path files st
      else
        (let full_path = os_path_join commands_path [f];
             module_name = ''mach.commands.'' @ take (length f - 3) f
         in case load_source fs module_name full_path st of
              (Raise e tb, st') \<Rightarrow>
                (Raise e ((main_py, 328, ''_load_modules'',
                           ''imp.load_source(module_name, full_path)'') # tb), st')
            | (Return u, st') \<Rightarrow> load_files fs commands_path files st'))"

text \<open>The outer loop over \<open>sys.path\<close>.\<close>

fun load_paths :: "file_system \<Rightarrow> string list \<Rightarrow> process_state \<Rightarrow> unit result \<times> process_state" where
  "load_paths fs [] st = (Return (), st)"
| "load_paths fs (path # paths) st =
     (let commands_path = os_path_join path [''mach'', ''commands'']
      in if \<not> isdir fs commands_path then load_paths fs paths st
         else
           (case load_files fs commands_path (sort (listdir fs commands_path)) st of
              (Raise e tb, st') \<Rightarrow> (Raise e tb, st')
            | (Return u, st') \<Rightarrow> load_paths fs paths st'))"

definition Mach__load_modules :: "file_system \<Rightarrow> process_state \<Rightarrow> unit result \<times> process_state" where
  "Mach__load_modules fs st =
     (let st1 = (if ''mach.commands'' \<notin> set (sys_modules st)
                 then st\<lparr>sys_modules := sys_modules st @ [''mach.commands'']\<rparr> else st)
      in load_paths fs (sys_path fs) st1)"

text \<open>\<open>Mach.__init__\<close> (lines 126 to 143).\<close>

definition Mach_init :: "file_system \<Rightarrow> string \<Rightarrow> process_state \<Rightarrow> unit result \<times> process_state" where
  "Mach_init fs cwd st =
     (if \<not> isdir fs cwd
      then (Raise AssertionError [(main_py, 129, ''__init__'', ''assert os.path.isdir(cwd)'')], st)
      else if \<not> MODULES_SCANNED st
      then (case Mach__load_modules fs st of
              (Raise e tb, st') \<Rightarrow>
                (Raise e ((main_py, 141, ''__init__'', ''self._load_modules()'') # tb), st')
            | (Return u, st') \<Rightarrow> (Return (), st'\<lparr>MODULES_SCANNED := True\<rparr>))
      else (Return (), st\<lparr>MODULES_SCANNED := True\<rparr>))"


section \<open>Sample inputs\<close>

definition idle_world :: world where
  "idle_world =
     \<lparr>sys_stdin = File 0 (Some ''UTF-8''), sys_stdout = File 1 (Some ''UTF-8''),
      sys_stderr = File 2 (Some ''UTF-8''), trace = []\<rparr>"

definition returning :: "pyval \<Rightarrow> handler" where
  "returning v kw w = (Return v, w)"

definition raising :: "pyexc \<Rightarrow> frame list \<Rightarrow> handler" where
  "raising e fs kw w = (Raise e fs, w)"

definition exiting_handler :: handler where
  "exiting_handler = raising (SystemExit 3) [(''b2g/mach/commands/build.py'', 19, ''build'', ''sys.exit(3)'')]"

definition posix_host :: host where
  "posix_host =
     \<lparr>plat = \<lparr>current_shell = ''/bin/sh'', in_msys = False\<rparr>,
      environ = [(''SHELL'', ''/bin/sh'')],
      process = (\<lambda>args env. 0)\<rparr>"

definition flash_namespace :: namespace where
  "flash_namespace =
     [(''command'', PStr ''flash''), (''verbose'', PBool False), (''logfile'', PNone),
      (''log_interval'', PBool False), (''serial_number'', PStr ''ABC123''),
      (''project'', PStr ''gaia''), (''cls'', PClass ''Flash''), (''method'', PStr ''flash'')]"

definition sample_decorators :: "decorator list" where
  "sample_decorators =
     [Command ([''deploy''], [(''help'', PStr ''Deploy a build.'')]),
      CommandArgument ([''--alpha'', ''-a''], [(''help'', PStr ''A'')]),
      CommandArgument ([''beta''], [(''choices'', PList [PStr ''x'', PStr ''y''])]),
      CommandArgument ([''gamma''], [])]"

definition Sample_class :: pyclass where
  "Sample_class =
     \<lparr>class_name = ''Sample'',
      class_dict = [(''helper'', Function (plain_func ''helper'')),
                    (''deploy'', Function (def_with sample_decorators (plain_func ''deploy'')))]\<rparr>"

definition msys_platform :: platform where
  "msys_platform = \<lparr>current_shell = ''/bin/sh.exe'', in_msys = True\<rparr>"

definition msys_environ :: env where
  "msys_environ = [(''SHELL'', ''/bin/sh''), (''MSYSTEM'', ''MINGW32'')]"

definition windows_script :: string where
  "windows_script = ''C:'' @ [backslash] @ ''foo'' @ [backslash] @ ''bar.sh''"

definition failing_process :: "string list \<Rightarrow> env \<Rightarrow> int" where
  "failing_process args env = 2"

definition b2g_files :: file_system where
  "b2g_files =
     \<lparr>sys_path = [''/usr/lib/python2.7'', ''/b2g/python/b2g''],
      isdir = (\<lambda>p. p = ''/b2g'' \<or> p = ''/b2g/python/b2g/mach/commands''),
      listdir = (\<lambda>p. if p = ''/b2g/python/b2g/mach/commands''
                      then [''flash.py'', ''build.py'', ''__init__.py'', ''emulator.py'', ''build.pyc'']
                      else []),
      source = (\<lambda>p. if p = ''/b2g/python/b2g/mach/commands/build.py'' then ([Build_class], None)
                     else if p = ''/b2g/python/b2g/mach/commands/emulator.py''
                     then ([Emulator_class], None)
                     else if p = ''/b2g/python/b2g/mach/commands/flash.py'' then ([Flash_class], None)
                     else ([], Some (UserError ''IOError'')))\<rparr>"

definition fresh_process :: process_state where
  "fresh_process = \<lparr>MODULES_SCANNED = False, registry = [], sys_modules = [], loads = []\<rparr>"

definition scanned_process :: process_state where
  "scanned_process =
     \<lparr>MODULES_SCANNED = True, registry = b2g_registry,
      sys_modules = [''mach.commands'', ''mach.commands.build'', ''mach.commands.emulator'',
                     ''mach.commands.flash''],
      loads = [(''mach.commands.build'', ''/b2g/python/b2g/mach/commands/build.py''),
               (''mach.commands.emulator'', ''/b2g/python/b2g/mach/commands/emulator.py''),
               (''mach.commands.flash'', ''/b2g/python/b2g/mach/commands/flash.py'')]\<rparr>"

text \<open>The grammar \<open>get_argument_parser\<close> builds from the registry of the three modules.\<close>

definition b2g_parser :: parser where
  "b2g_parser =
     \<lparr>p_arguments = global_arguments,
      p_defaults = [(''command'', PStr ''help'')],
      p_subparsers =
        [\<lparr>sp_name = ''build'', sp_arguments = [help_argument],
          sp_defaults = [(''cls'', PClass ''Build''), (''method'', PStr ''build'')]\<rparr>,
         \<lparr>sp_name = ''run-emulator'', sp_arguments = [help_argument],
          sp_defaults = [(''cls'', PClass ''Emulator''), (''method'', PStr ''run_emulator'')]\<rparr>,
         \<lparr>sp_name = ''flash'',
          sp_arguments =
            [help_argument,
             \<lparr>option_strings = [''--serial-number'', ''-s''], dest = ''serial_number'',
              action = Store, default_value = PNone, choices = None, file_type = False\<rparr>,
             \<lparr>option_strings = [], dest = ''project'', action = Store, default_value = PNone,
              choices = Some [''gecko'', ''gaia'', ''time''], file_type = False\<rparr>],
          sp_defaults = [(''cls'', PClass ''Flash''), (''method'', PStr ''flash'')]\<rparr>]\<rparr>"

definition flash_time_namespace :: namespace where
  "flash_time_namespace =
     [(''command'', PStr ''flash''), (''verbose'', PBool False), (''logfile'', PNone),
      (''log_interval'', PBool False), (''serial_number'', PNone),
      (''project'', PStr ''time''), (''cls'', PClass ''Flash''), (''method'', PStr ''flash'')]"

definition sample_arguments :: "argument list" where
  "sample_arguments =
     [\<lparr>option_strings = [''--alpha'', ''-a''], dest = ''alpha'', action = Store,
       default_value = PNone, choices = None, file_type = False\<rparr>,
      \<lparr>option_strings = [], dest = ''beta'', action = Store, default_value = PNone,
       choices = Some [''x'', ''y''], file_type = False\<rparr>,
      \<lparr>option_strings = [], dest = ''gamma'', action = Store, default_value = PNone,
       choices = None, file_type = False\<rparr>]"

section \<open>Notions the properties are stated with\<close>

text \<open>
  The secondary declarations among the decorators of a function, in source order, and
  its primary declaration (the topmost one, which is applied last).
\<close>

fun argument_decls :: "decorator list \<Rightarrow> command_args list" where
  "argument_decls [] = []"
| "argument_decls (Command a # ds) = argument_decls ds"
| "argument_decls (CommandArgument a # ds) = a # argument_decls ds"

fun primary_decl :: "decorator list \<Rightarrow> command_args option" where
  "primary_decl [] = None"
| "primary_decl (Command a # ds) = Some a"
| "primary_decl (CommandArgument a # ds) = primary_decl ds"

text \<open>The list a function carries, as \<open>getattr(func, '_mach_command_args', [])\<close> reads it.\<close>

definition attached :: "func \<Rightarrow> command_args list" where
  "attached f = (case mach_command_args f of None \<Rightarrow> [] | Some l \<Rightarrow> l)"

text \<open>A series of constructions of \<open>Mach\<close> in one process, each leaving its state to the next.\<close>

definition construct_all :: "(file_system \<times> string) list \<Rightarrow> process_state \<Rightarrow> process_state" where
  "construct_all later st = fold (\<lambda>(fs, cwd) s. snd (Mach_init fs cwd s)) later st"




section \<open>Properties of the dispatcher\<close>

lemma filter_neq_Nil_iff: "(filter P xs \<noteq> []) = (\<not> list_all (\<lambda>x. \<not> P x) xs)"
  by (induction xs) auto



lemma dispatch_resolved:
  assumes "map_of args ''logfile'' = Some lf" and "map_of args ''verbose'' = Some vb"
    and "map_of args ''log_interval'' = Some li" and "resolve T cwd args = Inr fn"
  shows "dispatch T cwd argv args w
           = invoke argv fn (stripped args)
               (emit (AddTerminalLogging (truthy vb) li)
                  (if truthy lf then emit (AddJsonHandler lf) w else w))"
  using assms by (simp add: dispatch_def Let_def)

lemma invoke_int:
  assumes "fn kw w = (Return (PInt s), w')"
  shows "invoke argv fn kw w = (Return (PInt s), w')"
  using assms by (simp add: invoke_def try_body_def)

text \<open>
  C1, as the code has it. A handler raises an exception of class \<open>Exception\<close> (so
  neither \<open>KeyboardInterrupt\<close> nor \<open>SystemExit\<close>) that leaves at least one
  traceback entry after the dispatcher's own. Then \<open>_run\<close> drops the dispatcher's
  entry, prints the header, then \<open>COMMAND_ERROR\<close> if every remaining entry has the
  file of the first remaining one and \<open>MODULE_ERROR\<close> otherwise, then the exception
  with the remaining entries, and returns 1.
\<close>

theorem failure_classified:
  assumes "fn kw w = (Raise e fs, w')" and "isinstance_Exception e" and "fs \<noteq> []"
  shows "invoke argv fn kw w =
           (Return (PInt 1),
            w'\<lparr>trace := trace w' @
                 [(sys_stdout w', ErrorHeader argv),
                  (sys_stdout w',
                   Banner (if list_all (\<lambda>f. fst f = fst (hd fs)) fs then COMMAND_ERROR
                           else MODULE_ERROR)),
                  (sys_stdout w', Banner ERROR_FOOTER),
                  (sys_stdout w', ExceptionReport e fs)]\<rparr>)"
proof -
  from assms(3) obtain f0 rest where fs: "fs = f0 # rest" by (cases fs) auto
  have ki: "\<not> isinstance_KeyboardInterrupt e" using assms(2) by (cases e) auto
  have other: "(length (filter (\<lambda>f. fst f \<noteq> fst f0) fs) \<noteq> 0)
                 = (\<not> list_all (\<lambda>f. fst f = fst f0) fs)"
    by (simp add: filter_neq_Nil_iff)
  show ?thesis
    using assms(1,2) ki other
    by (simp add: invoke_def try_body_def classify_def Let_def fs emit_def
          print_error_header_def print_exception_def)
qed

theorem failure_classified_witness:
  "invoke [''build'']
     (raising (UserError ''ValueError'')
        [(''b2g/mach/commands/build.py'', 21, ''build'', ''return self._run_command(args)''),
         (''mach/base.py'', 190, ''_run_command'', ''p.run()'')])
     [] idle_world
   = (Return (PInt 1),
      idle_world\<lparr>trace :=
        [(File 1 (Some ''UTF-8''), ErrorHeader [''build'']),
         (File 1 (Some ''UTF-8''), Banner MODULE_ERROR),
         (File 1 (Some ''UTF-8''), Banner ERROR_FOOTER),
         (File 1 (Some ''UTF-8''), ExceptionReport (UserError ''ValueError'')
            [(''b2g/mach/commands/build.py'', 21, ''build'', ''return self._run_command(args)''),
             (''mach/base.py'', 190, ''_run_command'', ''p.run()'')])]\<rparr>)"
  using failure_classified
    [of "raising (UserError ''ValueError'')
           [(''b2g/mach/commands/build.py'', 21, ''build'', ''return self._run_command(args)''),
            (''mach/base.py'', 190, ''_run_command'', ''p.run()'')]"
        "[]" idle_world "UserError ''ValueError''"
        "[(''b2g/mach/commands/build.py'', 21, ''build'', ''return self._run_command(args)''),
          (''mach/base.py'', 190, ''_run_command'', ''p.run()'')]"
        idle_world "[''build'']"]
  by (simp add: raising_def idle_world_def)

text \<open>
  C1 as the claim has it fails: a handler that raises \<open>SystemExit\<close>, which is not a
  \<open>KeyboardInterrupt\<close>, is caught by neither \<open>except\<close> clause, and \<open>_run\<close> does
  not return 1.
\<close>

theorem failure_classified_counterexample:
  "\<not> isinstance_KeyboardInterrupt (SystemExit 3)
   \<and> fst (invoke [''build''] exiting_handler [] idle_world) \<noteq> Return (PInt 1)"
  by (simp add: invoke_def try_body_def exiting_handler_def raising_def)

text \<open>
  C2. When the handler returns, \<open>_run\<close> returns 0 for a falsy result and a truthy
  integer unchanged; for a truthy result that is not an integer the assertion of line
  258 fails, so the result is not returned. The \<open>AssertionError\<close> is raised inside
  the \<open>try\<close>, whose \<open>except Exception\<close> clause takes it; its traceback has the
  entry of \<open>_run\<close> only, and what leaves \<open>_run\<close> is the \<open>IndexError\<close> of
  \<open>stack[0]\<close>.
\<close>

theorem exit_code_normalised:
  assumes "fn kw w = (Return r, w')"
  shows "(\<not> truthy r \<longrightarrow> invoke argv fn kw w = (Return (PInt 0), w'))
       \<and> (truthy r \<and> isinstance_int r \<longrightarrow> invoke argv fn kw w = (Return r, w'))
       \<and> (truthy r \<and> \<not> isinstance_int r \<longrightarrow>
            try_body fn kw w = (Raise AssertionError [assert_frame], w')
            \<and> invoke argv fn kw w = (Raise IndexError [index_frame], w'))"
  using assms by (simp add: invoke_def try_body_def classify_def Let_def)

theorem exit_code_normalised_witness:
  "invoke [''build''] (returning PNone) [] idle_world = (Return (PInt 0), idle_world)
   \<and> invoke [''build''] (returning (PInt 3)) [] idle_world = (Return (PInt 3), idle_world)
   \<and> try_body (returning (PStr ''done'')) [] idle_world
       = (Raise AssertionError [assert_frame], idle_world)
   \<and> invoke [''build''] (returning (PStr ''done'')) [] idle_world
       = (Raise IndexError [index_frame], idle_world)"
  using exit_code_normalised [of "returning PNone" "[]" idle_world PNone idle_world "[''build'']"]
        exit_code_normalised [of "returning (PInt 3)" "[]" idle_world "PInt 3" idle_world "[''build'']"]
        exit_code_normalised [of "returning (PStr ''done'')" "[]" idle_world "PStr ''done''" idle_world
                                 "[''build'']"]
  by (simp add: returning_def)



section \<open>Properties of the outer boundary\<close>

text \<open>
  C10. Whatever \<open>_run\<close> and the handler do, and whichever way \<open>run\<close> is left (a
  returned value, an exception turned into exit code 1, or an exception that
  propagates), \<open>sys.stdin\<close>, \<open>sys.stdout\<close> and \<open>sys.stderr\<close> are afterwards what
  they were before the call.
\<close>

theorem streams_restored:
  "sys_stdin (snd (Mach_run inner argv stdin stdout stderr w)) = sys_stdin w
   \<and> sys_stdout (snd (Mach_run inner argv stdin stdout stderr w)) = sys_stdout w
   \<and> sys_stderr (snd (Mach_run inner argv stdin stdout stderr w)) = sys_stderr w"
  by (simp add: Mach_run_def Let_def split: prod.splits)


section \<open>Properties of the declarations\<close>

lemma attached_def_with: "attached (def_with ds f) = attached f @ rev (argument_decls ds)"
proof (induction ds)
  case Nil
  then show ?case by (simp add: def_with_def)
next
  case (Cons d ds)
  then show ?case by (cases d) (simp_all add: def_with_def attached_def Let_def)
qed

lemma mach_command_args_def_with:
  "mach_command_args (def_with ds f)
     = (if argument_decls ds = [] then mach_command_args f
        else Some (attached f @ rev (argument_decls ds)))"
proof (induction ds)
  case Nil
  then show ?case by (simp add: def_with_def)
next
  case (Cons d ds)
  then show ?case
    by (cases d) (auto simp: def_with_def attached_def Let_def split: option.splits)
qed

lemma mach_command_def_with:
  "mach_command (def_with ds f) = (case primary_decl ds of None \<Rightarrow> mach_command f | Some a \<Rightarrow> Some a)"
proof (induction ds)
  case Nil
  then show ?case by (simp add: def_with_def)
next
  case (Cons d ds)
  then show ?case by (cases d) (simp_all add: def_with_def Let_def)
qed

lemma provide_attr_mono: "set reg \<subseteq> set (provide_attr cls k reg)"
  by (auto simp: provide_attr_def register_method_handler_def Let_def
           split: option.splits attr_value.splits)

lemma fold_provide_mono: "set reg \<subseteq> set (fold (provide_attr cls) ks reg)"
proof (induction ks arbitrary: reg)
  case Nil
  then show ?case by simp
next
  case (Cons k ks)
  have "set reg \<subseteq> set (provide_attr cls k reg)" by (rule provide_attr_mono)
  also have "\<dots> \<subseteq> set (fold (provide_attr cls) ks (provide_attr cls k reg))" by (rule Cons.IH)
  finally show ?case by simp
qed

lemma provide_attr_registers:
  assumes "map_of (class_dict cls) k = Some (Function f)" and "mach_command f = Some pa"
  shows "\<lparr>d_cls = class_name cls, d_method = k, d_parser_args = pa, d_arguments = attached f\<rparr>
           \<in> set (provide_attr cls k reg)"
  using assms by (simp add: provide_attr_def register_method_handler_def Let_def attached_def)

lemma fold_provide_registers:
  assumes "k \<in> set ks" and "map_of (class_dict cls) k = Some (Function f)"
    and "mach_command f = Some pa"
  shows "\<lparr>d_cls = class_name cls, d_method = k, d_parser_args = pa, d_arguments = attached f\<rparr>
           \<in> set (fold (provide_attr cls) ks reg)"
  using assms(1)
proof (induction ks arbitrary: reg)
  case Nil
  then show ?case by simp
next
  case (Cons a ks)
  show ?case
  proof (cases "a = k")
    case True
    have "\<lparr>d_cls = class_name cls, d_method = k, d_parser_args = pa, d_arguments = attached f\<rparr>
            \<in> set (provide_attr cls k reg)"
      by (rule provide_attr_registers [OF assms(2,3)])
    then show ?thesis using fold_provide_mono [of "provide_attr cls k reg" cls ks] True by auto
  next
    case False
    then have "k \<in> set ks" using Cons.prems by simp
    then show ?thesis using Cons.IH by simp
  qed
qed

text \<open>
  C4. A method of a command-provider class carries a primary declaration and the
  secondary declarations \<open>argument_decls ds\<close>, in source order. The decorators leave
  them on the function in reverse source order; \<open>CommandProvider\<close> registers that
  list as it is; read as the registrar is specified to read it, the arguments are in
  source order, and so are the arguments of the sub-grammar built for the command,
  after its help option.
\<close>

theorem argument_order:
  assumes "map_of (class_dict cls) attr = Some (Function (def_with ds (plain_func n)))"
    and "primary_decl ds = Some (name # names, kw)"
    and "add_arguments (argument_decls ds) = Some as"
  shows "mach_command_args (def_with ds (plain_func n))
           = (if argument_decls ds = [] then None else Some (rev (argument_decls ds)))
       \<and> (\<exists>d \<in> set (CommandProvider cls reg).
             d_cls d = class_name cls \<and> d_method d = attr
             \<and> d_arguments d = rev (argument_decls ds)
             \<and> resolved_arguments d = argument_decls ds
             \<and> (names = [] \<longrightarrow> populate_argument_parser [d]
                  = Some [\<lparr>sp_name = name, sp_arguments = help_argument # as,
                           sp_defaults = [(''cls'', PClass (class_name cls)),
                                          (''method'', PStr attr)]\<rparr>]))"
proof -
  let ?f = "def_with ds (plain_func n)"
  have att: "attached ?f = rev (argument_decls ds)"
    by (simp add: attached_def_with) (simp add: attached_def plain_func_def)
  have cmd: "mach_command ?f = Some (name # names, kw)"
    by (simp add: mach_command_def_with assms(2))
  have key: "attr \<in> set (sort (remdups (map fst (class_dict cls))))"
    using map_of_SomeD [OF assms(1)] by force
  let ?d = "\<lparr>d_cls = class_name cls, d_method = attr, d_parser_args = (name # names, kw),
              d_arguments = attached ?f\<rparr>"
  have mem: "?d \<in> set (CommandProvider cls reg)"
    unfolding CommandProvider_def by (rule fold_provide_registers [OF key assms(1) cmd])
  have 1: "mach_command_args ?f
             = (if argument_decls ds = [] then None else Some (rev (argument_decls ds)))"
    by (simp add: mach_command_args_def_with) (simp add: attached_def plain_func_def)
  have 2: "names = [] \<longrightarrow> populate_argument_parser [?d]
                  = Some [\<lparr>sp_name = name, sp_arguments = help_argument # as,
                           sp_defaults = [(''cls'', PClass (class_name cls)),
                                          (''method'', PStr attr)]\<rparr>]"
    using assms(3) by (simp add: att resolved_arguments_def)
  show ?thesis using 1 2 mem att
    by (intro conjI bexI [of _ ?d]) (simp_all add: resolved_arguments_def)
qed

theorem argument_order_witness:
  "mach_command_args (def_with sample_decorators (plain_func ''deploy''))
     = Some [([''gamma''], []),
             ([''beta''], [(''choices'', PList [PStr ''x'', PStr ''y''])]),
             ([''--alpha'', ''-a''], [(''help'', PStr ''A'')])]
   \<and> (\<exists>d \<in> set (CommandProvider Sample_class []).
         d_cls d = ''Sample'' \<and> d_method d = ''deploy''
         \<and> resolved_arguments d
             = [([''--alpha'', ''-a''], [(''help'', PStr ''A'')]),
                ([''beta''], [(''choices'', PList [PStr ''x'', PStr ''y''])]),
                ([''gamma''], [])]
         \<and> populate_argument_parser [d]
             = Some [\<lparr>sp_name = ''deploy'', sp_arguments = help_argument # sample_arguments,
                      sp_defaults = [(''cls'', PClass ''Sample''), (''method'', PStr ''deploy'')]\<rparr>])"
proof -
  have 1: "map_of (class_dict Sample_class) ''deploy''
             = Some (Function (def_with sample_decorators (plain_func ''deploy'')))"
    by (simp add: Sample_class_def)
  have 2: "primary_decl sample_decorators = Some ([''deploy''], [(''help'', PStr ''Deploy a build.'')])"
    by (simp add: sample_decorators_def)
  have 3: "add_arguments (argument_decls sample_decorators) = Some sample_arguments"
    by code_simp
  have 4: "argument_decls sample_decorators
             = [([''--alpha'', ''-a''], [(''help'', PStr ''A'')]),
                ([''beta''], [(''choices'', PList [PStr ''x'', PStr ''y''])]),
                ([''gamma''], [])]"
    by (simp add: sample_decorators_def)
  have 5: "class_name Sample_class = ''Sample''" by (simp add: Sample_class_def)
  show ?thesis
    using argument_order [OF 1 2 3, of "[]"] unfolding 4 5
    by (auto simp del: populate_argument_parser.simps)
qed

section \<open>Properties of the handler base\<close>

lemma detect_msys: "detect_platform msys_environ = Inr msys_platform"
  by code_simp

lemma in_msys_detect:
  "detect_platform en = Inr pf \<Longrightarrow> in_msys pf = (map_of en ''MSYSTEM'' = Some ''MINGW32'')"
  by (auto simp: detect_platform_def split: sum.splits if_splits)

text \<open>
  C7, as the code has it. For a non-empty argument vector: when
  \<open>require_unix_environment\<close> is true and \<open>MSYSTEM\<close> is \<open>MINGW32\<close>, the result
  is the detected shell, \<open>-c\<close>, and the command line that \<open>list2cmdline\<close> makes of
  the program, its backslashes turned into slashes, and the remaining arguments; the
  drive prefix of the program stays. Otherwise the vector is returned as it is.
\<close>

theorem shell_rewrite:
  assumes "detect_platform en = Inr pf" and "args \<noteq> []"
  shows "BaseMixin__normalize_command pf args require_unix_environment
           = (if require_unix_environment \<and> map_of en ''MSYSTEM'' = Some ''MINGW32''
              then Inr [current_shell pf, ''-c'',
                        list2cmdline (replace_char backslash (CHR ''/'') (hd args) # tl args)]
              else Inr args)"
  using assms in_msys_detect [OF assms(1)] by (simp add: BaseMixin__normalize_command_def Let_def)

theorem shell_rewrite_witness:
  "BaseMixin__normalize_command msys_platform [windows_script, ''baz''] True
     = Inr [''/bin/sh.exe'', ''-c'', ''C:/foo/bar.sh baz'']
   \<and> BaseMixin__normalize_command msys_platform [windows_script, ''baz''] False
     = Inr [windows_script, ''baz'']"
  using shell_rewrite [OF detect_msys, of "[windows_script, ''baz'']" True]
        shell_rewrite [OF detect_msys, of "[windows_script, ''baz'']" False]
  by (simp add: msys_platform_def msys_environ_def windows_script_def list2cmdline_def quote_arg_def
        backslash_def dquote_def tab_def)

text \<open>
  C7 as the claim has it fails at its own example: in MSYS the vector
  \<open>["C:\\foo\\bar.sh", "baz"]\<close> does not become \<open>[shell, "-c", "foo/bar.sh baz"]\<close>.
\<close>

theorem shell_rewrite_counterexample:
  "detect_platform msys_environ = Inr msys_platform
   \<and> map_of msys_environ ''MSYSTEM'' = Some ''MINGW32''
   \<and> BaseMixin__normalize_command msys_platform [windows_script, ''baz''] True
       \<noteq> Inr [current_shell msys_platform, ''-c'', ''foo/bar.sh baz'']"
  using detect_msys
  by (simp add: BaseMixin__normalize_command_def msys_platform_def windows_script_def
        msys_environ_def list2cmdline_def quote_arg_def backslash_def dquote_def tab_def)

text \<open>
  C8. Once the argument vector is normalised and the program has run, \<open>_run_command\<close>
  raises exactly when the exit status is not 0 and \<open>ignore_errors\<close> is false, and
  otherwise returns the exit status.
\<close>

theorem run_command_errors:
  assumes "BaseMixin__normalize_command pf args require_unix_environment = Inr args'"
  shows "((\<exists>e fs. fst (BaseMixin__run_command pf en run args append_env explicit_env
                          require_unix_environment ignore_errors w) = Raise e fs)
           \<longleftrightarrow> (run args' (use_env en append_env explicit_env) \<noteq> 0 \<and> \<not> ignore_errors))
       \<and> (\<not> (run args' (use_env en append_env explicit_env) \<noteq> 0 \<and> \<not> ignore_errors)
            \<longrightarrow> fst (BaseMixin__run_command pf en run args append_env explicit_env
                        require_unix_environment ignore_errors w)
                  = Return (PInt (run args' (use_env en append_env explicit_env))))"
  using assms by (simp add: BaseMixin__run_command_def Let_def)

theorem run_command_errors_witness:
  "(\<exists>e fs. fst (BaseMixin__run_command msys_platform [] failing_process [''./build.sh''] None None
                   False False idle_world) = Raise e fs)
   \<and> fst (BaseMixin__run_command msys_platform [] failing_process [''./build.sh''] None None
            False True idle_world) = Return (PInt 2)"
proof -
  have n: "BaseMixin__normalize_command msys_platform [''./build.sh''] False = Inr [''./build.sh'']"
    by (simp add: BaseMixin__normalize_command_def)
  show ?thesis
    using run_command_errors [OF n, of "[]" failing_process None None False idle_world]
          run_command_errors [OF n, of "[]" failing_process None None True idle_world]
    by (simp add: failing_process_def)
qed

section \<open>Properties of module loading\<close>

lemma scanned_fixed:
  assumes "MODULES_SCANNED st"
  shows "snd (Mach_init fs cwd st) = st"
  using assms by (cases st) (simp add: Mach_init_def)

lemma init_sets_guard:
  assumes "Mach_init fs cwd st = (Return (), st1)"
  shows "MODULES_SCANNED st1"
  using assms by (auto simp: Mach_init_def split: if_splits prod.splits result.splits)

lemma construct_all_fixed: "MODULES_SCANNED st \<Longrightarrow> construct_all later st = st"
  unfolding construct_all_def
  by (induction later) (auto simp: scanned_fixed)

lemma first_construction: "Mach_init b2g_files ''/b2g'' fresh_process = (Return (), scanned_process)"
  by code_simp

text \<open>
  C9. After a construction of \<open>Mach\<close> that succeeds the guard is set, and any later
  construction in the process, whatever the file system shows by then, leaves the
  registry, the record of loaded modules and the rest of the state as they are: it
  loads nothing and registers nothing again.
\<close>

theorem scan_once:
  assumes "Mach_init fs cwd st = (Return (), st1)"
  shows "MODULES_SCANNED st1
       \<and> snd (Mach_init fs' cwd' st1) = st1
       \<and> registry (construct_all later st1) = registry st1
       \<and> loads (construct_all later st1) = loads st1
       \<and> (isdir fs' cwd' \<longrightarrow> Mach_init fs' cwd' st1 = (Return (), st1))"
proof -
  have g: "MODULES_SCANNED st1" by (rule init_sets_guard [OF assms])
  have "isdir fs' cwd' \<longrightarrow> Mach_init fs' cwd' st1 = (Return (), st1)"
    using g by (cases st1) (simp add: Mach_init_def)
  then show ?thesis using g by (simp add: scanned_fixed construct_all_fixed)
qed

theorem scan_once_witness:
  "Mach_init b2g_files ''/b2g'' fresh_process = (Return (), scanned_process)
   \<and> Mach_init b2g_files ''/b2g'' scanned_process = (Return (), scanned_process)
   \<and> registry (construct_all [(b2g_files, ''/b2g''), (b2g_files, ''/b2g'')] scanned_process)
       = b2g_registry"
proof -
  have d: "isdir b2g_files ''/b2g''" by (simp add: b2g_files_def)
  have r: "registry scanned_process = b2g_registry" by (simp add: scanned_process_def)
  show ?thesis
    using scan_once [OF first_construction, of b2g_files "''/b2g''"
                       "[(b2g_files, ''/b2g''), (b2g_files, ''/b2g'')]"]
          first_construction d r
    by simp
qed


section \<open>Properties of the argument grammar\<close>

lemma b2g_parser_built: "get_argument_parser b2g_registry = Some b2g_parser"
  by code_simp
















section \<open>The flash scenarios\<close>

lemma parse_flash_serial:
  "parse_tokens b2g_parser [''flash'', ''--serial-number'', ''ABC123'', ''gaia'']
     = Some (Namespace flash_namespace)"
  by code_simp

lemma parse_flash_time:
  "parse_tokens b2g_parser [''flash'', ''time''] = Some (Namespace flash_time_namespace)"
  by code_simp

lemma stripped_flash_serial:
  "stripped flash_namespace = [(''serial_number'', PStr ''ABC123''), (''project'', PStr ''gaia'')]"
  by (simp add: stripped_def flash_namespace_def CONSUMED_ARGUMENTS_def)

lemma stripped_flash_time:
  "stripped flash_time_namespace = [(''serial_number'', PNone), (''project'', PStr ''time'')]"
  by (simp add: stripped_def flash_time_namespace_def CONSUMED_ARGUMENTS_def)

lemma resolve_flash:
  "resolve (b2g_tables h) cwd flash_namespace = Inr (Flash_flash h cwd)"
  "resolve (b2g_tables h) cwd flash_time_namespace = Inr (Flash_flash h cwd)"
  by (simp_all add: resolve_def b2g_tables_def flash_namespace_def flash_time_namespace_def)

lemma flash_namespace_globals:
  "map_of flash_namespace ''logfile'' = Some PNone"
  "map_of flash_namespace ''verbose'' = Some (PBool False)"
  "map_of flash_namespace ''log_interval'' = Some (PBool False)"
  "map_of flash_time_namespace ''logfile'' = Some PNone"
  "map_of flash_time_namespace ''verbose'' = Some (PBool False)"
  "map_of flash_time_namespace ''log_interval'' = Some (PBool False)"
  by (simp_all add: flash_namespace_def flash_time_namespace_def)

lemma flash_runs:
  assumes "\<not> in_msys (plat h)" and "strings_of vs = Some strs" and "strs \<noteq> []"
  shows "run_script h file line name vs w
           = (Return (PInt (process h strs (environ h))), emit (RunProcess strs (environ h)) w)"
  using assms
  by (simp add: run_script_def BaseMixin__run_command_def BaseMixin__normalize_command_def
        use_env_def Let_def)

lemma run_flash_serial:
  assumes "\<not> in_msys (plat h)"
  shows "Mach__run (b2g_tables h) b2g_registry cwd
           [''flash'', ''--serial-number'', ''ABC123'', ''gaia''] w
         = Some (Return (PInt (process h [os_path_join cwd [''flash.sh''], ''ABC123'', ''gaia'']
                                 (environ h))),
                 emit (RunProcess [os_path_join cwd [''flash.sh''], ''ABC123'', ''gaia''] (environ h))
                   (emit (AddTerminalLogging False (PBool False)) w))"
proof -
  let ?w = "emit (AddTerminalLogging False (PBool False)) w"
  have h: "Flash_flash h cwd (stripped flash_namespace) ?w
            = (Return (PInt (process h [os_path_join cwd [''flash.sh''], ''ABC123'', ''gaia'']
                                 (environ h))),
               emit (RunProcess [os_path_join cwd [''flash.sh''], ''ABC123'', ''gaia''] (environ h)) ?w)"
    unfolding stripped_flash_serial
    by (simp add: Flash_flash_def flash_args_def flash_runs [OF assms])
  have d: "dispatch (b2g_tables h) cwd [''flash'', ''--serial-number'', ''ABC123'', ''gaia'']
             flash_namespace w
           = invoke [''flash'', ''--serial-number'', ''ABC123'', ''gaia''] (Flash_flash h cwd)
               (stripped flash_namespace) ?w"
    using dispatch_resolved [OF flash_namespace_globals(1,2,3) resolve_flash(1)] by simp
  show ?thesis
    using invoke_int [of "Flash_flash h cwd" "stripped flash_namespace" ?w _ _
                        "[''flash'', ''--serial-number'', ''ABC123'', ''gaia'']", OF h]
    by (simp add: Mach__run_def b2g_parser_built parse_args_def parse_flash_serial d)
qed

lemma run_flash_time:
  assumes "\<not> in_msys (plat h)"
  shows "Mach__run (b2g_tables h) b2g_registry cwd [''flash'', ''time''] w
         = Some (Return (PInt (process h [os_path_join cwd [''flash.sh''], ''time''] (environ h))),
                 emit (RunProcess [os_path_join cwd [''flash.sh''], ''time''] (environ h))
                   (emit (AddTerminalLogging False (PBool False)) w))"
proof -
  let ?w = "emit (AddTerminalLogging False (PBool False)) w"
  have h: "Flash_flash h cwd (stripped flash_time_namespace) ?w
            = (Return (PInt (process h [os_path_join cwd [''flash.sh''], ''time''] (environ h))),
               emit (RunProcess [os_path_join cwd [''flash.sh''], ''time''] (environ h)) ?w)"
    unfolding stripped_flash_time
    by (simp add: Flash_flash_def flash_args_def flash_runs [OF assms])
  have d: "dispatch (b2g_tables h) cwd [''flash'', ''time''] flash_time_namespace w
           = invoke [''flash'', ''time''] (Flash_flash h cwd) (stripped flash_time_namespace) ?w"
    using dispatch_resolved [OF flash_namespace_globals(4,5,6) resolve_flash(2)] by simp
  show ?thesis
    using invoke_int [of "Flash_flash h cwd" "stripped flash_time_namespace" ?w _ _
                        "[''flash'', ''time'']", OF h]
    by (simp add: Mach__run_def b2g_parser_built parse_args_def parse_flash_time d)
qed

lemma join_plain:
  assumes "cwd \<noteq> []" and "\<not> suffix ''/'' cwd"
  shows "os_path_join cwd [''flash.sh''] = cwd @ ''/flash.sh''"
  using assms by (simp add: os_path_join_def join_step_def)

text \<open>
  C5. The command line \<open>flash --serial-number ABC123 gaia\<close> is parsed to a namespace
  bound to \<open>Flash.flash\<close>, whose keyword arguments are \<open>serial_number = "ABC123"\<close>
  and \<open>project = "gaia"\<close>, and the handler builds the vector of the joined path of
  \<open>flash.sh\<close>, the serial number and the project; \<open>flash time\<close> gives the keyword
  arguments \<open>serial_number = None\<close> and \<open>project = "time"\<close> and the vector of the
  path and the project. Outside MSYS that vector is the one the external program is
  started with, and its exit status is the result of \<open>_run\<close>.
\<close>

theorem flash_scenario:
  "parse_tokens b2g_parser [''flash'', ''--serial-number'', ''ABC123'', ''gaia'']
     = Some (Namespace flash_namespace)
   \<and> resolve (b2g_tables h) cwd flash_namespace = Inr (Flash_flash h cwd)
   \<and> stripped flash_namespace = [(''serial_number'', PStr ''ABC123''), (''project'', PStr ''gaia'')]
   \<and> flash_args cwd (PStr ''gaia'') (PStr ''ABC123'')
       = [PStr (os_path_join cwd [''flash.sh'']), PStr ''ABC123'', PStr ''gaia'']
   \<and> parse_tokens b2g_parser [''flash'', ''time''] = Some (Namespace flash_time_namespace)
   \<and> resolve (b2g_tables h) cwd flash_time_namespace = Inr (Flash_flash h cwd)
   \<and> stripped flash_time_namespace = [(''serial_number'', PNone), (''project'', PStr ''time'')]
   \<and> flash_args cwd (PStr ''time'') PNone = [PStr (os_path_join cwd [''flash.sh'']), PStr ''time'']
   \<and> (cwd \<noteq> [] \<and> \<not> suffix ''/'' cwd \<longrightarrow> os_path_join cwd [''flash.sh''] = cwd @ ''/flash.sh'')
   \<and> (\<not> in_msys (plat h) \<longrightarrow>
        Mach__run (b2g_tables h) b2g_registry cwd
           [''flash'', ''--serial-number'', ''ABC123'', ''gaia''] w
         = Some (Return (PInt (process h [os_path_join cwd [''flash.sh''], ''ABC123'', ''gaia'']
                                 (environ h))),
                 emit (RunProcess [os_path_join cwd [''flash.sh''], ''ABC123'', ''gaia''] (environ h))
                   (emit (AddTerminalLogging False (PBool False)) w))
        \<and> Mach__run (b2g_tables h) b2g_registry cwd [''flash'', ''time''] w
         = Some (Return (PInt (process h [os_path_join cwd [''flash.sh''], ''time''] (environ h))),
                 emit (RunProcess [os_path_join cwd [''flash.sh''], ''time''] (environ h))
                   (emit (AddTerminalLogging False (PBool False)) w)))"
  using parse_flash_serial parse_flash_time resolve_flash [of h cwd] stripped_flash_serial
    stripped_flash_time run_flash_serial [of h cwd w] run_flash_time [of h cwd w] join_plain [of cwd]
  by (simp add: flash_args_def)

theorem flash_scenario_witness:
  "Mach__run (b2g_tables posix_host) b2g_registry ''/b2g''
     [''flash'', ''--serial-number'', ''ABC123'', ''gaia''] idle_world
   = Some (Return (PInt 0),
           emit (RunProcess [''/b2g/flash.sh'', ''ABC123'', ''gaia''] [(''SHELL'', ''/bin/sh'')])
             (emit (AddTerminalLogging False (PBool False)) idle_world))
   \<and> Mach__run (b2g_tables posix_host) b2g_registry ''/b2g'' [''flash'', ''time''] idle_world
   = Some (Return (PInt 0),
           emit (RunProcess [''/b2g/flash.sh'', ''time''] [(''SHELL'', ''/bin/sh'')])
             (emit (AddTerminalLogging False (PBool False)) idle_world))"
proof -
  have j: "''/b2g'' \<noteq> [] \<and> \<not> suffix ''/'' ''/b2g''" by code_simp
  have m: "\<not> in_msys (plat posix_host)" by (simp add: posix_host_def)
  have e: "environ posix_host = [(''SHELL'', ''/bin/sh'')]" "process posix_host = (\<lambda>args env. 0)"
    by (simp_all add: posix_host_def)
  show ?thesis
    using flash_scenario [of posix_host "''/b2g''" idle_world] j m
    by (simp add: e)
qed


end
